theory Spec2Isabelle
  imports Main "HOL-Library.Word"
begin

unbundle bit_operations_syntax

section \<open>The physical memory of the simulator (Memory.hpp)\<close>

text \<open>
  A shallow embedding of class \<open>Memory\<close> of \<open>src/Memory.hpp\<close>. A \<open>size_t\<close> is a
  64-bit word, an \<open>unsigned\<close> size a 32-bit word, a hart index (only ever used as
  a vector index) a natural number. Every member function takes the memory and returns
  what it returns together with the memory it leaves behind, when it assigns to a member.

  Two things the C++ does besides returning are made values of type \<open>error\<close>:
  \<open>std::vector::at\<close> throws \<open>std::out_of_range\<close> on a bad index (\<open>OutOfRange\<close>), and
  a dereference of \<open>data_ + address\<close> outside the byte buffer is undefined behaviour
  (\<open>OutOfBounds\<close>). A function of the model returns \<open>Inl\<close> of the error, or \<open>Inr\<close> of
  its result.
\<close>

datatype error = OutOfRange | OutOfBounds

type_synonym addr = "64 word"
type_synonym byte = "8 word"

subsection \<open>Page attributes\<close>

text \<open>struct PageAttribs: the six one-bit flags, named after their accessors.\<close>

record PageAttribs =
  isRead :: bool
  isWrite :: bool
  isExec :: bool
  isMemMappedReg :: bool
  isIccm :: bool
  isDccm :: bool

text \<open>The default constructor \<open>PageAttribs()\<close>: no flag set.\<close>

definition PageAttribs0 :: PageAttribs where
  "PageAttribs0 = \<lparr>isRead = False, isWrite = False, isExec = False,
     isMemMappedReg = False, isIccm = False, isDccm = False\<rparr>"

definition isMapped :: "PageAttribs \<Rightarrow> bool" where
  "isMapped a = (isRead a \<or> isWrite a \<or> isExec a)"

definition isExternal :: "PageAttribs \<Rightarrow> bool" where
  "isExternal a = (\<not> isDccm a \<and> \<not> isMemMappedReg a)"

subsection \<open>Reservations, last-write records and the memory\<close>

record Reservation =
  res_addr :: addr
  res_size :: "32 word"
  res_valid :: bool

record LastWriteData =
  lwd_size :: "32 word"
  lwd_addr :: addr
  lwd_value :: "64 word"
  lwd_prevValue :: "64 word"

text \<open>
  The data members the access functions use. The byte buffer \<open>data_\<close> is the list
  \<open>data\<close>, whose length is the number of bytes allocated.
\<close>

record Memory =
  data :: "byte list"
  pageSize :: addr
  pageShift :: nat
  attribs :: "PageAttribs list"
  masks :: "32 word list list"
  reservations :: "Reservation list"
  lastWriteData :: "LastWriteData list"

subsection \<open>Typed access to the byte buffer\<close>

text \<open>
  \<open>sizeof(T)\<close> for the unsigned integer type of \<open>LENGTH('a)\<close> bits, and the object
  representation of such a value on the little-endian host: the least significant
  byte first.
\<close>

definition sizeof :: "'a::len itself \<Rightarrow> nat" where
  "sizeof t = LENGTH('a) div 8"

definition supported :: "'a::len itself \<Rightarrow> bool" where
  "supported t = (LENGTH('a) = 8 \<or> LENGTH('a) = 16 \<or> LENGTH('a) = 32 \<or> LENGTH('a) = 64)"

fun toBytes :: "nat \<Rightarrow> 'a::len word \<Rightarrow> byte list" where
  "toBytes 0 w = []"
| "toBytes (Suc n) w = ucast w # toBytes n (drop_bit 8 w)"

fun fromBytes :: "byte list \<Rightarrow> 'a::len word" where
  "fromBytes [] = 0"
| "fromBytes (b # bs) = ucast b OR push_bit 8 (fromBytes bs)"

text \<open>\<open>*(reinterpret_cast<const T*>(data_ + address))\<close>, read and assigned.\<close>

definition loadT :: "byte list \<Rightarrow> addr \<Rightarrow> error + 'a::len word" where
  "loadT d address =
     (if unat address + sizeof TYPE('a) \<le> length d
      then Inr (fromBytes (take (sizeof TYPE('a)) (drop (unat address) d)))
      else Inl OutOfBounds)"

definition storeT :: "byte list \<Rightarrow> addr \<Rightarrow> 'a::len word \<Rightarrow> error + byte list" where
  "storeT d address v =
     (if unat address + sizeof TYPE('a) \<le> length d
      then Inr (take (unat address) d @ toBytes (sizeof TYPE('a)) v
                @ drop (unat address + sizeof TYPE('a)) d)
      else Inl OutOfBounds)"

subsection \<open>Pages\<close>

text \<open>
  \<open>addr >> pageShift_\<close> and \<open>(addr >> pageShift_) << pageShift_\<close>. The shift count
  is the logarithm of the page size, below 64; \<open>size_t\<close> arithmetic wraps around, as
  the arithmetic of words does.
\<close>

definition getPageIx :: "Memory \<Rightarrow> addr \<Rightarrow> addr" where
  "getPageIx m a = drop_bit (pageShift m) a"

definition getAttrib :: "Memory \<Rightarrow> addr \<Rightarrow> PageAttribs" where
  "getAttrib m a =
     (let ix = unat (getPageIx m a)
      in if ix < length (attribs m) then attribs m ! ix else PageAttribs0)"

definition getPageStartAddr :: "Memory \<Rightarrow> addr \<Rightarrow> addr" where
  "getPageStartAddr m a = push_bit (pageShift m) (drop_bit (pageShift m) a)"

definition setReadAccess :: "Memory \<Rightarrow> addr \<Rightarrow> bool \<Rightarrow> Memory" where
  "setReadAccess m a v =
     (let ix = unat (getPageIx m a)
      in if ix \<ge> length (attribs m) then m
         else m\<lparr>attribs := (attribs m)[ix := (attribs m ! ix)\<lparr>isRead := v\<rparr>]\<rparr>)"

subsection \<open>Memory-mapped registers\<close>

definition readRegister :: "Memory \<Rightarrow> addr \<Rightarrow> 32 word \<Rightarrow> error + (bool \<times> 32 word)" where
  "readRegister m a v =
     (if a AND 3 \<noteq> 0 then Inr (False, v)
      else case loadT (data m) a of
             Inl e \<Rightarrow> Inl e
           | Inr x \<Rightarrow> Inr (True, x))"

definition getMemoryMappedMask :: "Memory \<Rightarrow> addr \<Rightarrow> error + 32 word" where
  "getMemoryMappedMask m a =
     (if masks m = [] then Inr (NOT 0)
      else let pageIx = unat (getPageIx m a)
        in if \<not> pageIx < length (masks m) then Inl OutOfRange
           else let pageMasks = masks m ! pageIx
             in if pageMasks = [] then Inr (NOT 0)
                else let wordIx = unat ((a - getPageStartAddr m a) div 4)
                  in if \<not> wordIx < length pageMasks then Inl OutOfRange
                     else Inr (pageMasks ! wordIx))"

definition doRegisterMasking :: "Memory \<Rightarrow> addr \<Rightarrow> 32 word \<Rightarrow> error + 32 word" where
  "doRegisterMasking m a v =
     (case getMemoryMappedMask m a of
        Inl e \<Rightarrow> Inl e
      | Inr msk \<Rightarrow> Inr (v AND msk))"

definition writeRegister :: "Memory \<Rightarrow> nat \<Rightarrow> addr \<Rightarrow> 32 word \<Rightarrow> error + (bool \<times> Memory)" where
  "writeRegister m localHartId a v =
     (if a AND 3 \<noteq> 0 then Inr (False, m)
      else case doRegisterMasking m a v of
        Inl e \<Rightarrow> Inl e
      | Inr v' \<Rightarrow>
         if \<not> localHartId < length (lastWriteData m) then Inl OutOfRange
         else case (loadT (data m) a :: error + 32 word) of
           Inl e \<Rightarrow> Inl e
         | Inr prev \<Rightarrow>
            (case storeT (data m) a v' of
               Inl e \<Rightarrow> Inl e
             | Inr d' \<Rightarrow>
                Inr (True, m\<lparr>data := d',
                       lastWriteData := (lastWriteData m)[localHartId :=
                         \<lparr>lwd_size = 4, lwd_addr = a, lwd_value = ucast v',
                          lwd_prevValue = ucast prev\<rparr>]\<rparr>)))"

subsection \<open>Reads\<close>

text \<open>
  \<open>template <typename T> bool read(size_t address, T& value) const\<close>. The result is
  the boolean returned and the content of \<open>value\<close> afterwards.
\<close>

definition read :: "Memory \<Rightarrow> addr \<Rightarrow> 'a::len word \<Rightarrow> error + (bool \<times> 'a word)" where
  "read m address v =
     (let attrib = getAttrib m address;
          sz = (of_nat (sizeof TYPE('a)) :: addr);
          page = getPageStartAddr m address;
          page2 = getPageStartAddr m (address + sz - 1);
          attrib2 = getAttrib m (address + sz)
      in if \<not> isRead attrib then Inr (False, v)
         else if address AND (sz - 1) \<noteq> 0 \<and> page \<noteq> page2 \<and>
                 (\<not> isRead attrib2 \<or> isDccm attrib \<noteq> isDccm attrib2 \<or>
                  isMemMappedReg attrib \<noteq> isMemMappedReg attrib2)
         then Inr (False, v)
         else if sizeof TYPE('a) = 4 \<and> isMemMappedReg attrib
         then (case readRegister m address (ucast v) of
                 Inl e \<Rightarrow> Inl e
               | Inr (b, x) \<Rightarrow> Inr (b, ucast x))
         else if sizeof TYPE('a) \<noteq> 4 \<and> isMemMappedReg attrib then Inr (False, v)
         else case loadT (data m) address of
                Inl e \<Rightarrow> Inl e
              | Inr x \<Rightarrow> Inr (True, x))"

definition readByte :: "Memory \<Rightarrow> addr \<Rightarrow> byte \<Rightarrow> error + (bool \<times> byte)" where
  "readByte m address v =
     (let attrib = getAttrib m address
      in if \<not> isRead attrib then Inr (False, v)
         else if isMemMappedReg attrib then Inr (False, v)
         else if unat address < length (data m) then Inr (True, data m ! unat address)
         else Inl OutOfBounds)"

definition readHalfWord :: "Memory \<Rightarrow> addr \<Rightarrow> 16 word \<Rightarrow> error + (bool \<times> 16 word)" where
  "readHalfWord m address v = read m address v"

definition readWord :: "Memory \<Rightarrow> addr \<Rightarrow> 32 word \<Rightarrow> error + (bool \<times> 32 word)" where
  "readWord m address v = read m address v"

definition readDoubleWord :: "Memory \<Rightarrow> addr \<Rightarrow> 64 word \<Rightarrow> error + (bool \<times> 64 word)" where
  "readDoubleWord m address v = read m address v"

definition readInstHalfWord :: "Memory \<Rightarrow> addr \<Rightarrow> 16 word \<Rightarrow> error + (bool \<times> 16 word)" where
  "readInstHalfWord m address v =
     (let attrib = getAttrib m address
      in if isExec attrib
         then (let page = getPageStartAddr m address;
                   page2 = getPageStartAddr m (address + 1);
                   attrib2 = getAttrib m (address + 1)
               in if address AND 1 \<noteq> 0 \<and> page \<noteq> page2 \<and>
                     (\<not> isExec attrib2 \<or> isIccm attrib \<noteq> isIccm attrib2)
                  then Inr (False, v)
                  else case loadT (data m) address of
                         Inl e \<Rightarrow> Inl e
                       | Inr x \<Rightarrow> Inr (True, x))
         else Inr (False, v))"

definition readInstWord :: "Memory \<Rightarrow> addr \<Rightarrow> 32 word \<Rightarrow> error + (bool \<times> 32 word)" where
  "readInstWord m address v =
     (let attrib = getAttrib m address
      in if isExec attrib
         then (let page = getPageStartAddr m address;
                   page2 = getPageStartAddr m (address + 3);
                   attrib2 = getAttrib m (address + 3)
               in if address AND 3 \<noteq> 0 \<and> page \<noteq> page2 \<and>
                     (\<not> isExec attrib2 \<or> isIccm attrib \<noteq> isIccm attrib2)
                  then Inr (False, v)
                  else case loadT (data m) address of
                         Inl e \<Rightarrow> Inl e
                       | Inr x \<Rightarrow> Inr (True, x))
         else Inr (False, v))"

subsection \<open>Writes\<close>


definition writeT :: "Memory \<Rightarrow> nat \<Rightarrow> addr \<Rightarrow> 'a::len word \<Rightarrow> error + (bool \<times> Memory)" where
  "writeT m localHartId address v =
     (let attrib1 = getAttrib m address;
          dccm1 = isDccm attrib1;
          sz = (of_nat (sizeof TYPE('a)) :: addr);
          page = getPageStartAddr m address;
          page2 = getPageStartAddr m (address + sz - 1);
          attrib2 = getAttrib m (address + sz)
      in if \<not> isWrite attrib1 then Inr (False, m)
         else if address AND (sz - 1) \<noteq> 0 \<and> page \<noteq> page2 \<and>
                 (\<not> isWrite attrib2 \<or> dccm1 \<noteq> isDccm attrib2 \<or>
                  isMemMappedReg attrib1 \<noteq> isMemMappedReg attrib2)
         then Inr (False, m)
         else if sizeof TYPE('a) = 4 \<and> isMemMappedReg attrib1
         then writeRegister m localHartId address (ucast v)
         else if sizeof TYPE('a) \<noteq> 4 \<and> isMemMappedReg attrib1 then Inr (False, m)
         else if \<not> localHartId < length (lastWriteData m) then Inl OutOfRange
         else case (loadT (data m) address :: error + 'a word) of
           Inl e \<Rightarrow> Inl e
         | Inr prev \<Rightarrow>
            (case storeT (data m) address v of
               Inl e \<Rightarrow> Inl e
             | Inr d' \<Rightarrow>
                Inr (True, m\<lparr>data := d',
                       lastWriteData := (lastWriteData m)[localHartId :=
                         \<lparr>lwd_size = of_nat (sizeof TYPE('a)), lwd_addr = address,
                          lwd_value = ucast v, lwd_prevValue = ucast prev\<rparr>]\<rparr>)))"

definition writeByte :: "Memory \<Rightarrow> nat \<Rightarrow> addr \<Rightarrow> byte \<Rightarrow> error + (bool \<times> Memory)" where
  "writeByte m localHartId address v =
     (let attrib = getAttrib m address
      in if \<not> isWrite attrib then Inr (False, m)
         else if isMemMappedReg attrib then Inr (False, m)
         else if \<not> localHartId < length (lastWriteData m) then Inl OutOfRange
         else if \<not> unat address < length (data m) then Inl OutOfBounds
         else Inr (True, m\<lparr>data := (data m)[unat address := v],
                lastWriteData := (lastWriteData m)[localHartId :=
                  \<lparr>lwd_size = 1, lwd_addr = address, lwd_value = ucast v,
                   lwd_prevValue = ucast (data m ! unat address)\<rparr>]\<rparr>))"

definition writeHalfWord :: "Memory \<Rightarrow> nat \<Rightarrow> addr \<Rightarrow> 16 word \<Rightarrow> error + (bool \<times> Memory)" where
  "writeHalfWord m localHartId address v = writeT m localHartId address v"

definition writeWord :: "Memory \<Rightarrow> nat \<Rightarrow> addr \<Rightarrow> 32 word \<Rightarrow> error + (bool \<times> Memory)" where
  "writeWord m localHartId address v = writeT m localHartId address v"

definition writeDoubleWord :: "Memory \<Rightarrow> nat \<Rightarrow> addr \<Rightarrow> 64 word \<Rightarrow> error + (bool \<times> Memory)" where
  "writeDoubleWord m localHartId address v = writeT m localHartId address v"


subsection \<open>The last write of a hart\<close>

text \<open>
  The three getters return the size and the contents of \<open>addr\<close> and \<open>value\<close>
  afterwards. \<open>getLastWriteOldValue\<close> is the overload with an address,
  \<open>getLastWriteOldValueOnly\<close> the one without.
\<close>

definition getLastWriteNewValue ::
    "Memory \<Rightarrow> nat \<Rightarrow> addr \<Rightarrow> 64 word \<Rightarrow> error + (32 word \<times> addr \<times> 64 word)" where
  "getLastWriteNewValue m localHartId a v =
     (if \<not> localHartId < length (lastWriteData m) then Inl OutOfRange
      else let lwd = lastWriteData m ! localHartId
        in if lwd_size lwd \<noteq> 0 then Inr (lwd_size lwd, lwd_addr lwd, lwd_value lwd)
           else Inr (lwd_size lwd, a, v))"

definition getLastWriteOldValue ::
    "Memory \<Rightarrow> nat \<Rightarrow> addr \<Rightarrow> 64 word \<Rightarrow> error + (32 word \<times> addr \<times> 64 word)" where
  "getLastWriteOldValue m localHartId a v =
     (if \<not> localHartId < length (lastWriteData m) then Inl OutOfRange
      else let lwd = lastWriteData m ! localHartId
        in if lwd_size lwd \<noteq> 0 then Inr (lwd_size lwd, lwd_addr lwd, lwd_value lwd)
           else Inr (lwd_size lwd, a, v))"

definition getLastWriteOldValueOnly ::
    "Memory \<Rightarrow> nat \<Rightarrow> 64 word \<Rightarrow> error + (32 word \<times> 64 word)" where
  "getLastWriteOldValueOnly m localHartId v =
     (if \<not> localHartId < length (lastWriteData m) then Inl OutOfRange
      else let lwd = lastWriteData m ! localHartId
        in if lwd_size lwd \<noteq> 0 then Inr (lwd_size lwd, lwd_prevValue lwd)
           else Inr (lwd_size lwd, v))"

definition clearLastWriteInfo :: "Memory \<Rightarrow> nat \<Rightarrow> error + Memory" where
  "clearLastWriteInfo m localHartId =
     (if \<not> localHartId < length (lastWriteData m) then Inl OutOfRange
      else Inr (m\<lparr>lastWriteData := (lastWriteData m)[localHartId :=
                    (lastWriteData m ! localHartId)\<lparr>lwd_size := 0\<rparr>]\<rparr>))"

subsection \<open>Load-reserve reservations\<close>

text \<open>
  The loop of \<open>invalidateOtherHartLr\<close> over the reservation vector, from index \<open>i\<close>.
  The \<open>unsigned\<close> sizes are converted to \<open>size_t\<close> for the comparisons.
\<close>

function invalidateOtherHartLr_loop ::
    "nat \<Rightarrow> nat \<Rightarrow> addr \<Rightarrow> 32 word \<Rightarrow> Reservation list \<Rightarrow> Reservation list" where
  "invalidateOtherHartLr_loop i localHartId a storeSize rs =
     (if i < length rs
      then if i = localHartId
           then invalidateOtherHartLr_loop (i + 1) localHartId a storeSize rs
           else if a \<ge> res_addr (rs ! i) \<and> a - res_addr (rs ! i) < ucast (res_size (rs ! i))
           then invalidateOtherHartLr_loop (i + 1) localHartId a storeSize
                  (rs[i := (rs ! i)\<lparr>res_valid := False\<rparr>])
           else if a < res_addr (rs ! i) \<and> res_addr (rs ! i) - a < ucast storeSize
           then invalidateOtherHartLr_loop (i + 1) localHartId a storeSize
                  (rs[i := (rs ! i)\<lparr>res_valid := False\<rparr>])
           else invalidateOtherHartLr_loop (i + 1) localHartId a storeSize rs
      else rs)"
  by pat_completeness auto
termination
  by (relation "measure (\<lambda>(i, h, a, s, rs). length rs - i)") auto

definition invalidateOtherHartLr :: "Memory \<Rightarrow> nat \<Rightarrow> addr \<Rightarrow> 32 word \<Rightarrow> Memory" where
  "invalidateOtherHartLr m localHartId a storeSize =
     m\<lparr>reservations := invalidateOtherHartLr_loop 0 localHartId a storeSize (reservations m)\<rparr>"

definition invalidateLr :: "Memory \<Rightarrow> nat \<Rightarrow> error + Memory" where
  "invalidateLr m localHartId =
     (if \<not> localHartId < length (reservations m) then Inl OutOfRange
      else Inr (m\<lparr>reservations := (reservations m)[localHartId :=
                    (reservations m ! localHartId)\<lparr>res_valid := False\<rparr>]\<rparr>))"

definition makeLr :: "Memory \<Rightarrow> nat \<Rightarrow> addr \<Rightarrow> 32 word \<Rightarrow> error + Memory" where
  "makeLr m localHartId a sz =
     (if \<not> localHartId < length (reservations m) then Inl OutOfRange
      else Inr (m\<lparr>reservations := (reservations m)[localHartId :=
                    \<lparr>res_addr = a, res_size = sz, res_valid = True\<rparr>]\<rparr>))"

definition hasLr :: "Memory \<Rightarrow> nat \<Rightarrow> addr \<Rightarrow> error + bool" where
  "hasLr m localHartId a =
     (if \<not> localHartId < length (reservations m) then Inl OutOfRange
      else let res = reservations m ! localHartId
        in Inr (res_valid res \<and> res_addr res = a))"

subsection \<open>Interval intersection, and a small memory for the examples\<close>

text \<open>
  The half-open intervals \<open>[a, a + s)\<close> and \<open>[b, b + t)\<close> of natural numbers have a
  point in common. This is the overlap of the specification, with no wrap-around.
\<close>

definition intersects :: "nat \<Rightarrow> nat \<Rightarrow> nat \<Rightarrow> nat \<Rightarrow> bool" where
  "intersects a s b t = (max a b < min (a + s) (b + t))"

text \<open>
  Three pages of 64 bytes, all zero: an external page (what the constructor gives every
  page), a page of memory-mapped registers whose first register has the write mask 1,
  and an ICCM page; two harts with no reservation and no last write.
\<close>

definition externalPage :: PageAttribs where
  "externalPage = \<lparr>isRead = True, isWrite = True, isExec = True,
     isMemMappedReg = False, isIccm = False, isDccm = False\<rparr>"

definition registerPage :: PageAttribs where
  "registerPage = \<lparr>isRead = True, isWrite = True, isExec = False,
     isMemMappedReg = True, isIccm = False, isDccm = False\<rparr>"

definition iccmPage :: PageAttribs where
  "iccmPage = \<lparr>isRead = True, isWrite = False, isExec = True,
     isMemMappedReg = False, isIccm = True, isDccm = False\<rparr>"

definition exampleMemory :: Memory where
  "exampleMemory =
     \<lparr>data = replicate 192 0, pageSize = 64, pageShift = 6,
      attribs = [externalPage, registerPage, iccmPage],
      masks = [[], 1 # replicate 15 (NOT 0), []],
      reservations = replicate 2 \<lparr>res_addr = 0, res_size = 0, res_valid = False\<rparr>,
      lastWriteData =
        replicate 2 \<lparr>lwd_size = 0, lwd_addr = 0, lwd_value = 0, lwd_prevValue = 0\<rparr>\<rparr>"

text \<open>
  The example memory after \<open>makeLr(0, 8, 4)\<close>: hart 0 holds a reservation of the four
  bytes from 8. And the example memory with page 0 external and pages 1 and 2 in the
  ICCM, for instruction fetches.
\<close>

definition reservedMemory :: Memory where
  "reservedMemory = exampleMemory\<lparr>reservations :=
     [\<lparr>res_addr = 8, res_size = 4, res_valid = True\<rparr>,
      \<lparr>res_addr = 0, res_size = 0, res_valid = False\<rparr>]\<rparr>"

definition fetchMemory :: Memory where
  "fetchMemory = exampleMemory\<lparr>attribs := [externalPage, iccmPage, iccmPage]\<rparr>"

section \<open>Properties\<close>

subsection \<open>Bytes and words\<close>

lemma length_toBytes: "length (toBytes n w) = n"
  by (induction n arbitrary: w) auto

lemma fromBytes_toBytes:
  "(fromBytes (toBytes n w) :: 'a::len word) = take_bit (8 * n) (w :: 'a word)"
proof (induction n arbitrary: w)
  case 0
  then show ?case by simp
next
  case (Suc n)
  show ?case
    apply (simp add: Suc)
    apply (rule bit_word_eqI)
    apply (auto simp add: bit_simps)
    done
qed

lemma fromBytes_toBytes_id:
  "LENGTH('a) \<le> 8 * n \<Longrightarrow> (fromBytes (toBytes n w) :: 'a::len word) = w"
  by (simp add: fromBytes_toBytes take_bit_word_eq_self)

lemma supported_sizeof: "supported TYPE('a::len) \<Longrightarrow> LENGTH('a) \<le> 8 * sizeof TYPE('a)"
  by (auto simp: supported_def sizeof_def)

lemma loadT_storeT:
  assumes "storeT d a (v :: 'a::len word) = Inr d'" and "supported TYPE('a)"
  shows "loadT d' a = Inr v"
  using assms
  by (auto simp: storeT_def loadT_def length_toBytes fromBytes_toBytes_id supported_sizeof
      split: if_splits)

lemma length_storeT: "storeT d a v = Inr d' \<Longrightarrow> length d' = length d"
  by (auto simp: storeT_def length_toBytes split: if_splits)

subsection \<open>Page lookups do not depend on the buffer or on the last-write records\<close>

lemma getAttrib_upd [simp]:
  "getAttrib (m\<lparr>data := d\<rparr>) a = getAttrib m a"
  "getAttrib (m\<lparr>lastWriteData := l\<rparr>) a = getAttrib m a"
  by (simp_all add: getAttrib_def getPageIx_def Let_def)

lemma getPageStartAddr_upd [simp]:
  "getPageStartAddr (m\<lparr>data := d\<rparr>) a = getPageStartAddr m a"
  "getPageStartAddr (m\<lparr>lastWriteData := l\<rparr>) a = getPageStartAddr m a"
  by (simp_all add: getPageStartAddr_def)

lemma sizeof_32 [simp]: "sizeof TYPE(32) = 4"
  by (simp add: sizeof_def)

subsection \<open>A failed write changes nothing\<close>

text \<open>
  C2. Whenever \<open>write\<close>, \<open>writeByte\<close> or \<open>writeRegister\<close> returns false, the memory
  it leaves behind is the memory it was given: the byte buffer and the last-write
  record of every hart are as before the call.
\<close>

theorem write_failure_atomic:
  "(writeT m h a (v :: 'a::len word) = Inr (False, m') \<longrightarrow>
      m' = m \<and> data m' = data m \<and> lastWriteData m' = lastWriteData m) \<and>
   (writeByte m h a b = Inr (False, m') \<longrightarrow>
      m' = m \<and> data m' = data m \<and> lastWriteData m' = lastWriteData m) \<and>
   (writeRegister m h a w = Inr (False, m') \<longrightarrow>
      m' = m \<and> data m' = data m \<and> lastWriteData m' = lastWriteData m)"
proof -
  have reg: "writeRegister m h a w = Inr (False, m') \<Longrightarrow> m' = m" for a w m'
    by (auto simp: writeRegister_def split: if_splits sum.splits)
  have wr: "writeT m h a v = Inr (False, m') \<Longrightarrow> m' = m"
    by (auto simp: writeT_def Let_def dest: reg split: if_splits sum.splits)
  have wb: "writeByte m h a b = Inr (False, m') \<Longrightarrow> m' = m"
    by (auto simp: writeByte_def Let_def split: if_splits)
  from reg wr wb show ?thesis by blast
qed

theorem write_failure_atomic_witness:
  "writeT exampleMemory 0 65 (255 :: 32 word) = Inr (False, exampleMemory) \<and>
   writeByte exampleMemory 0 65 255 = Inr (False, exampleMemory) \<and>
   writeRegister exampleMemory 0 65 255 = Inr (False, exampleMemory)"
proof -
  have w1: "writeT exampleMemory 0 65 (255 :: 32 word) = Inr (False, exampleMemory)"
    by code_simp
  have w2: "writeByte exampleMemory 0 65 255 = Inr (False, exampleMemory)"
    by code_simp
  have w3: "writeRegister exampleMemory 0 65 255 = Inr (False, exampleMemory)"
    by code_simp
  from write_failure_atomic [of exampleMemory 0 65 "255 :: 32 word" exampleMemory 255 255]
    w1 w2 w3
  show ?thesis by simp
qed

subsection \<open>Reservations are looked up by their exact address\<close>

text \<open>
  C9. \<open>hasLr(hart, addr)\<close> is true if and only if the reservation of the hart is valid
  and its address is \<open>addr\<close>; after \<open>makeLr(hart, r, sz)\<close> it is true at \<open>r\<close> and at
  no other address, also not at one inside the reserved bytes.
\<close>

theorem hasLr_exact:
  assumes "h < length (reservations m)"
  shows "hasLr m h a =
           Inr (res_valid (reservations m ! h) \<and> res_addr (reservations m ! h) = a) \<and>
         (\<exists>m'. makeLr m h r sz = Inr m' \<and> hasLr m' h a = Inr (a = r))"
  using assms by (auto simp: hasLr_def makeLr_def Let_def)

theorem hasLr_exact_witness:
  "(0::nat) < length (reservations exampleMemory) \<and>
   hasLr exampleMemory 0 9 = Inr False \<and>
   (\<exists>m'. makeLr exampleMemory 0 8 4 = Inr m' \<and>
          hasLr m' 0 9 = Inr False \<and> hasLr m' 0 8 = Inr True)"
proof -
  have h: "(0::nat) < length (reservations exampleMemory)"
    by (simp add: exampleMemory_def)
  from hasLr_exact [OF h, of 9 8 4] hasLr_exact [OF h, of 8 8 4]
  show ?thesis using h by (auto simp: exampleMemory_def)
qed

subsection \<open>The old value of the last write\<close>

text \<open>
  C4. The overload of \<open>getLastWriteOldValue\<close> that also reports the address assigns
  \<open>lwd.value_\<close>, the value written, where its comment promises the value before the
  write: it computes what \<open>getLastWriteNewValue\<close> computes. Hart 0 writes the word 255
  at address 8 of the zeroed example memory; the getter then reports size 4, address 8
  and the value 255, while the memory held 0 there, which the overload without an
  address does report.
\<close>

theorem getLastWriteOldValue_reports_new_value:
  "(case writeWord exampleMemory 0 8 255 of
      Inl e \<Rightarrow> False
    | Inr (b, m) \<Rightarrow>
        b \<and> readWord exampleMemory 8 0 = Inr (True, 0) \<and>
        getLastWriteOldValue m 0 0 0 = Inr (4, 8, 255) \<and>
        getLastWriteOldValueOnly m 0 0 = Inr (4, 0))"
  by code_simp

lemma getLastWriteOldValue_eq_NewValue:
  "getLastWriteOldValue m h a v = getLastWriteNewValue m h a v"
  by (simp add: getLastWriteOldValue_def getLastWriteNewValue_def)

subsection \<open>Alignment of register accesses\<close>

text \<open>
  C6, as stated: a 4-byte read at a register-page address that is not word-aligned
  succeeds. It does not: address 65 lies on the readable register page of the example
  memory, the four bytes from 65 stay inside that page, and \<open>readWord\<close> returns false
  and leaves the value alone, while the aligned read at 64 succeeds.
\<close>

theorem readWord_misaligned_register_fails:
  "isMemMappedReg (getAttrib exampleMemory 65) \<and> isRead (getAttrib exampleMemory 65) \<and>
   getPageStartAddr exampleMemory 65 = getPageStartAddr exampleMemory (65 + 3) \<and>
   readWord exampleMemory 65 7 = Inr (False, 7) \<and>
   readWord exampleMemory 64 7 = Inr (True, 0)"
  by code_simp

text \<open>
  C6, amended. On a register page the read path rejects an address that is not
  word-aligned just as the write path does: \<open>readWord\<close> and \<open>writeWord\<close> both return
  false there and change nothing. A word-aligned \<open>readWord\<close> of a readable register
  page inside the buffer succeeds with the stored bytes, unmasked, and a read of any
  other width of a register page fails.
\<close>

theorem register_access_alignment:
  assumes "isMemMappedReg (getAttrib m a)"
  shows "(a AND 3 \<noteq> 0 \<longrightarrow>
            readWord m a v = Inr (False, v) \<and> writeWord m h a w = Inr (False, m)) \<and>
         (a AND 3 = 0 \<and> isRead (getAttrib m a) \<and> unat a + 4 \<le> length (data m) \<longrightarrow>
            readWord m a v = Inr (True, fromBytes (take 4 (drop (unat a) (data m))))) \<and>
         (sizeof TYPE('a) \<noteq> 4 \<longrightarrow> read m a (x :: 'a::len word) = Inr (False, x))"
proof (intro conjI impI)
  assume "a AND 3 \<noteq> 0"
  with assms show "readWord m a v = Inr (False, v)"
    by (simp add: readWord_def read_def readRegister_def Let_def)
next
  assume "a AND 3 \<noteq> 0"
  with assms show "writeWord m h a w = Inr (False, m)"
    by (simp add: writeWord_def writeT_def writeRegister_def Let_def)
next
  assume "a AND 3 = 0 \<and> isRead (getAttrib m a) \<and> unat a + 4 \<le> length (data m)"
  with assms show "readWord m a v = Inr (True, fromBytes (take 4 (drop (unat a) (data m))))"
    by (simp add: readWord_def read_def readRegister_def loadT_def Let_def)
next
  assume "sizeof TYPE('a) \<noteq> 4"
  with assms show "read m a x = Inr (False, x)"
    by (simp add: read_def Let_def)
qed

theorem register_access_alignment_witness:
  "isMemMappedReg (getAttrib exampleMemory 65) \<and>
   readWord exampleMemory 65 7 = Inr (False, 7) \<and>
   writeWord exampleMemory 0 65 7 = Inr (False, exampleMemory) \<and>
   isMemMappedReg (getAttrib exampleMemory 64) \<and>
   readWord exampleMemory 64 7 = Inr (True, 0) \<and>
   read exampleMemory 64 (7 :: 16 word) = Inr (False, 7)"
proof -
  have r1: "isMemMappedReg (getAttrib exampleMemory 65)" by code_simp
  have r2: "isMemMappedReg (getAttrib exampleMemory 64)" by code_simp
  have a1: "(65 :: addr) AND 3 \<noteq> 0" by simp
  have a2: "(64 :: addr) AND 3 = 0 \<and> isRead (getAttrib exampleMemory 64) \<and>
            unat (64 :: addr) + 4 \<le> length (data exampleMemory)" by code_simp
  have a3: "sizeof TYPE(16) \<noteq> 4" by (simp add: sizeof_def)
  have v: "(fromBytes (take 4 (drop (unat (64 :: addr)) (data exampleMemory))) :: 32 word) = 0"
    by code_simp
  from register_access_alignment [OF r1, of 7 0 7 "7 :: 16 word"]
       register_access_alignment [OF r2, of 7 0 7 "7 :: 16 word"] r1 r2 a1 a2 a3 v
  show ?thesis by simp
qed

subsection \<open>Page arithmetic\<close>








subsection \<open>Stores seen by loads\<close>


lemma supported_32 [simp]: "supported TYPE(32)"
  by (simp add: supported_def)



lemma writeRegister_ok:
  assumes "a AND 3 = 0" and "getMemoryMappedMask m a = Inr msk"
    and "h < length (lastWriteData m)" and "unat a + 4 \<le> length (data m)"
  shows "\<exists>d' prev. storeT (data m) a (v AND msk) = Inr d' \<and>
           (loadT (data m) a :: error + 32 word) = Inr prev \<and>
           writeRegister m h a v =
             Inr (True, m\<lparr>data := d',
                    lastWriteData := (lastWriteData m)[h :=
                      \<lparr>lwd_size = 4, lwd_addr = a, lwd_value = ucast (v AND msk),
                       lwd_prevValue = ucast prev\<rparr>]\<rparr>)"
  using assms
  by (simp add: writeRegister_def doRegisterMasking_def storeT_def loadT_def)

lemma writeT_plain:
  assumes "writeT m h a (v :: 'a::len word) = Inr (True, m')"
    and "\<not> isMemMappedReg (getAttrib m a)"
  shows "\<exists>d' prev. storeT (data m) a v = Inr d' \<and>
           (loadT (data m) a :: error + 'a word) = Inr prev \<and> h < length (lastWriteData m) \<and>
           m' = m\<lparr>data := d',
                  lastWriteData := (lastWriteData m)[h :=
                    \<lparr>lwd_size = of_nat (sizeof TYPE('a)), lwd_addr = a,
                     lwd_value = ucast v, lwd_prevValue = ucast prev\<rparr>]\<rparr>"
  using assms
  by (auto simp: writeT_def Let_def split: if_splits sum.splits)


subsection \<open>Write, then read\<close>

text \<open>
  C1, as stated: on every mapped, writable, non-register address a successful write is
  followed by a successful read of the value. \<open>read\<close> asks for the readable flag,
  which \<open>setReadAccess\<close> can clear on a writable page: after
  \<open>setReadAccess(0, false)\<close> on the example memory page 0 is mapped and writable and
  holds no registers, the word write at 8 succeeds, and the read at 8 returns false.
\<close>

theorem write_only_page_round_trip_fails:
  "isMapped (getAttrib (setReadAccess exampleMemory 0 False) 8) \<and>
   isWrite (getAttrib (setReadAccess exampleMemory 0 False) 8) \<and>
   \<not> isMemMappedReg (getAttrib (setReadAccess exampleMemory 0 False) 8) \<and>
   (case writeT (setReadAccess exampleMemory 0 False) 0 8 (255 :: 32 word) of
      Inl e \<Rightarrow> False
    | Inr (b, m') \<Rightarrow> b \<and> read m' 8 (0 :: 32 word) = Inr (False, 0))"
  by code_simp

text \<open>
  C1, amended. Where the address is readable as well as writable (its page and, when a
  misaligned access leaves that page, the page of \<open>a + sizeof(T)\<close> that \<open>read\<close>
  inspects), a successful write of a value of a supported width to an address that is not
  on a register page is followed by a successful read of that value.
\<close>

theorem write_read_round_trip:
  assumes sup: "supported TYPE('a)"
    and w: "writeT m h a (v :: 'a::len word) = Inr (True, m')"
    and nreg: "\<not> isMemMappedReg (getAttrib m a)"
    and rd: "isRead (getAttrib m a)"
    and rd2: "a AND (of_nat (sizeof TYPE('a)) - 1) \<noteq> 0 \<and>
              getPageStartAddr m a \<noteq> getPageStartAddr m (a + of_nat (sizeof TYPE('a)) - 1) \<longrightarrow>
              isRead (getAttrib m (a + of_nat (sizeof TYPE('a))))"
  shows "read m' a x = Inr (True, v)"
proof -
  from writeT_plain [OF w nreg] obtain d' l'
    where st: "storeT (data m) a v = Inr d'"
      and m': "m' = m\<lparr>data := d', lastWriteData := l'\<rparr>"
    by blast
  have ld: "loadT d' a = Inr v" using st sup by (rule loadT_storeT)
  have cross: "a AND (of_nat (sizeof TYPE('a)) - 1) \<noteq> 0 \<and>
              getPageStartAddr m a \<noteq> getPageStartAddr m (a + of_nat (sizeof TYPE('a)) - 1) \<longrightarrow>
              isWrite (getAttrib m (a + of_nat (sizeof TYPE('a)))) \<and>
              isDccm (getAttrib m a) = isDccm (getAttrib m (a + of_nat (sizeof TYPE('a)))) \<and>
              isMemMappedReg (getAttrib m a) = isMemMappedReg (getAttrib m (a + of_nat (sizeof TYPE('a))))"
    using w by (auto simp: writeT_def Let_def split: if_splits)
  show ?thesis
    using rd rd2 cross nreg ld
    by (auto simp: read_def Let_def m')
qed

theorem write_read_round_trip_witness:
  "\<exists>m'. writeT exampleMemory 0 9 (255 :: 32 word) = Inr (True, m') \<and>
         read m' 9 (0 :: 32 word) = Inr (True, 255)"
proof -
  have w: "writeT exampleMemory 0 9 (255 :: 32 word) =
             Inr (True, snd (projr (writeT exampleMemory 0 9 (255 :: 32 word))))"
    by code_simp
  have nreg: "\<not> isMemMappedReg (getAttrib exampleMemory 9)" by code_simp
  have rd: "isRead (getAttrib exampleMemory 9)" by code_simp
  have rd2: "9 AND (of_nat (sizeof TYPE(32)) - 1) \<noteq> (0 :: addr) \<and>
     getPageStartAddr exampleMemory 9 \<noteq> getPageStartAddr exampleMemory (9 + of_nat (sizeof TYPE(32)) - 1) \<longrightarrow>
     isRead (getAttrib exampleMemory (9 + of_nat (sizeof TYPE(32))))"
    by code_simp
  from write_read_round_trip [OF supported_32 w nreg rd rd2, of 0] w
  show ?thesis by blast
qed

subsection \<open>Masked register writes\<close>

text \<open>
  C10. After a successful write of \<open>v\<close> to a word-aligned register with write mask
  \<open>msk\<close>, the last-write record of the hart holds the masked value:
  \<open>getLastWriteNewValue\<close> returns size 4, the address and \<open>v & msk\<close>.
\<close>

theorem register_write_records_masked_value:
  assumes "isWrite (getAttrib m a)" and "isMemMappedReg (getAttrib m a)"
    and "a AND 3 = 0" and "getMemoryMappedMask m a = Inr msk"
    and "h < length (lastWriteData m)" and "unat a + 4 \<le> length (data m)"
  shows "\<exists>m'. writeWord m h a v = Inr (True, m') \<and>
           getLastWriteNewValue m' h a0 v0 = Inr (4, a, ucast (v AND msk))"
proof -
  from writeRegister_ok [OF assms(3-6), of v] obtain d' and prev :: "32 word"
    where w: "writeRegister m h a v =
             Inr (True, m\<lparr>data := d',
                    lastWriteData := (lastWriteData m)[h :=
                      \<lparr>lwd_size = 4, lwd_addr = a, lwd_value = ucast (v AND msk),
                       lwd_prevValue = ucast prev\<rparr>]\<rparr>)"
    by blast
  have "writeWord m h a v = writeRegister m h a v"
    using assms(1-3) by (simp add: writeWord_def writeT_def Let_def)
  with w assms(5) show ?thesis
    by (simp add: getLastWriteNewValue_def Let_def)
qed

theorem register_write_records_masked_value_witness:
  "\<exists>m'. writeWord exampleMemory 0 64 255 = Inr (True, m') \<and>
         getLastWriteNewValue m' 0 0 0 = Inr (4, 64, 1)"
proof -
  have a: "isWrite (getAttrib exampleMemory 64)" "isMemMappedReg (getAttrib exampleMemory 64)"
    "(64 :: addr) AND 3 = 0" "getMemoryMappedMask exampleMemory 64 = Inr 1"
    "(0 :: nat) < length (lastWriteData exampleMemory)"
    "unat (64 :: addr) + 4 \<le> length (data exampleMemory)"
    by code_simp+
  from register_write_records_masked_value [OF a, of 255 0 0]
  show ?thesis by simp
qed



subsection \<open>checkWrite is a dry run of write\<close>







lemma unat_page_ix: "unat (drop_bit s (a :: addr)) = unat a div 2 ^ s"
  unfolding unat_drop_bit_eq by (simp add: drop_bit_eq_div)

lemma getAttrib_nat:
  "getAttrib m a =
     (if unat a div 2 ^ pageShift m < length (attribs m)
      then attribs m ! (unat a div 2 ^ pageShift m) else PageAttribs0)"
  unfolding getAttrib_def getPageIx_def Let_def unat_page_ix ..


lemma getAttrib_in_table:
  assumes "unat a div 2 ^ pageShift m < length (attribs m)"
  shows "getAttrib m a = attribs m ! (unat a div 2 ^ pageShift m)"
  using assms by (simp add: getAttrib_nat)









subsection \<open>Invalidating the reservations of the other harts\<close>

declare invalidateOtherHartLr_loop.simps [simp del]

lemma loop_length:
  "length (invalidateOtherHartLr_loop i h a s rs) = length rs"
proof (induction i h a s rs rule: invalidateOtherHartLr_loop.induct)
  case (1 i h a s rs)
  show ?case
    using "1.IH" by (subst invalidateOtherHartLr_loop.simps) auto
qed

lemma loop_nth:
  "j < length rs \<Longrightarrow>
   invalidateOtherHartLr_loop i h a s rs ! j =
     (if i \<le> j \<and> j \<noteq> h \<and>
         ((a \<ge> res_addr (rs ! j) \<and> a - res_addr (rs ! j) < ucast (res_size (rs ! j))) \<or>
          (a < res_addr (rs ! j) \<and> res_addr (rs ! j) - a < ucast s))
      then (rs ! j)\<lparr>res_valid := False\<rparr> else rs ! j)"
proof (induction i h a s rs rule: invalidateOtherHartLr_loop.induct)
  case (1 i h a s rs)
  show ?case
  proof (cases "i < length rs")
    case False
    with "1.prems" show ?thesis
      by (subst invalidateOtherHartLr_loop.simps) simp
  next
    case True
    note il = True
    show ?thesis
    proof (cases "i = h")
      case True
      have "invalidateOtherHartLr_loop i h a s rs = invalidateOtherHartLr_loop (i + 1) h a s rs"
        using il True by (subst invalidateOtherHartLr_loop.simps) simp
      with "1.IH"(1) [OF il True "1.prems"] True show ?thesis
        by (auto simp: Suc_le_eq le_less)
    next
      case False
      note ih = False
      let ?c1 = "a \<ge> res_addr (rs ! i) \<and> a - res_addr (rs ! i) < ucast (res_size (rs ! i))"
      let ?c2 = "a < res_addr (rs ! i) \<and> res_addr (rs ! i) - a < ucast s"
      let ?rs' = "rs[i := (rs ! i)\<lparr>res_valid := False\<rparr>]"
      have jl': "j < length ?rs'" using "1.prems" by simp
      show ?thesis
      proof (cases ?c1)
        case True
        have e: "invalidateOtherHartLr_loop i h a s rs = invalidateOtherHartLr_loop (i + 1) h a s ?rs'"
          using il ih True by (subst invalidateOtherHartLr_loop.simps) auto
        show ?thesis
          unfolding e "1.IH"(2) [OF il ih True jl']
          using True "1.prems" il ih by (cases "j = i") (auto simp: Suc_le_eq le_less)
      next
        case c1: False
        show ?thesis
        proof (cases ?c2)
          case True
          have e: "invalidateOtherHartLr_loop i h a s rs = invalidateOtherHartLr_loop (i + 1) h a s ?rs'"
            using il ih c1 True by (subst invalidateOtherHartLr_loop.simps) auto
          show ?thesis
            unfolding e "1.IH"(3) [OF il ih c1 True jl']
            using True "1.prems" il ih by (cases "j = i") (auto simp: Suc_le_eq le_less)
        next
          case c2: False
          have e: "invalidateOtherHartLr_loop i h a s rs = invalidateOtherHartLr_loop (i + 1) h a s rs"
            using il ih c1 c2 by (subst invalidateOtherHartLr_loop.simps) auto
          show ?thesis
            unfolding e "1.IH"(4) [OF il ih c1 c2 "1.prems"]
            using c1 c2 ih by (cases "j = i") (auto simp: Suc_le_eq le_less)
        qed
      qed
    qed
  qed
qed

lemma unat_ucast_32_64: "unat (ucast (s :: 32 word) :: addr) = unat s"
proof -
  have "unat s < 2 ^ 32" using unsigned_less [of s] by simp
  then have "unat s < 2 ^ 64" by simp
  then show ?thesis by (simp add: unsigned_ucast_eq take_bit_nat_eq_self)
qed

lemma hit_iff_intersects:
  fixes a ra :: addr and s rsz :: "32 word"
  assumes "s \<noteq> 0" and "rsz \<noteq> 0"
  shows "((a \<ge> ra \<and> a - ra < ucast rsz) \<or> (a < ra \<and> ra - a < ucast s)) =
         intersects (unat ra) (unat rsz) (unat a) (unat s)"
proof -
  have s0: "0 < unat s" and r0: "0 < unat rsz" using assms by (simp_all add: unat_gt_0)
  have us: "unat (ucast s :: addr) = unat s" and ur: "unat (ucast rsz :: addr) = unat rsz"
    by (rule unat_ucast_32_64)+
  have c1: "(a \<ge> ra \<and> a - ra < ucast rsz) = (unat ra \<le> unat a \<and> unat a - unat ra < unat rsz)"
    by (auto simp: word_le_nat_alt word_less_nat_alt unat_sub ur)
  have c2: "(a < ra \<and> ra - a < ucast s) = (unat a < unat ra \<and> unat ra - unat a < unat s)"
    by (auto simp: word_le_nat_alt word_less_nat_alt unat_sub us)
  show ?thesis
    unfolding c1 c2 intersects_def using s0 r0 by (auto simp: max_def min_def)
qed

text \<open>
  C5, as stated: the reservation of another hart becomes invalid if and only if its
  interval and the interval of the store intersect. With a store of size 0 the interval
  of the store is empty and intersects nothing, yet the loop, which tests whether the
  first byte of one interval lies in the other, invalidates the reservation of hart 0 at
  8 when hart 1 stores 0 bytes at 8.
\<close>

theorem empty_store_invalidates_reservation:
  "makeLr exampleMemory 0 8 4 = Inr reservedMemory \<and>
   hasLr reservedMemory 0 8 = Inr True \<and>
   \<not> intersects 8 4 8 0 \<and>
   hasLr (invalidateOtherHartLr reservedMemory 1 8 0) 0 8 = Inr False"
  by code_simp

text \<open>
  C5, amended. \<open>invalidateOtherHartLr(h, addr, storeSize)\<close> keeps the number of
  reservations and the address and size of every reservation, and the validity of the
  reservation of hart \<open>h\<close>. For a hart \<open>i\<close> other than \<open>h\<close>, when the store and the
  reservation of \<open>i\<close> both have a size other than 0, the reservation is valid afterwards
  if and only if it was valid before and the half-open intervals
  \<open>[res.addr, res.addr + res.size)\<close> and \<open>[addr, addr + storeSize)\<close>, taken in
  the natural numbers with no wrap-around, do not intersect.
\<close>

theorem invalidateOtherHartLr_overlap:
  assumes "i < length (reservations m)"
  shows "length (reservations (invalidateOtherHartLr m h a storeSize)) = length (reservations m) \<and>
         res_addr (reservations (invalidateOtherHartLr m h a storeSize) ! i) =
           res_addr (reservations m ! i) \<and>
         res_size (reservations (invalidateOtherHartLr m h a storeSize) ! i) =
           res_size (reservations m ! i) \<and>
         (i = h \<longrightarrow>
            res_valid (reservations (invalidateOtherHartLr m h a storeSize) ! i) =
              res_valid (reservations m ! i)) \<and>
         (i \<noteq> h \<and> storeSize \<noteq> 0 \<and> res_size (reservations m ! i) \<noteq> 0 \<longrightarrow>
            res_valid (reservations (invalidateOtherHartLr m h a storeSize) ! i) =
              (res_valid (reservations m ! i) \<and>
               \<not> intersects (unat (res_addr (reservations m ! i)))
                    (unat (res_size (reservations m ! i))) (unat a) (unat storeSize)))"
proof -
  let ?r = "reservations m ! i"
  let ?hit = "(a \<ge> res_addr ?r \<and> a - res_addr ?r < ucast (res_size ?r)) \<or>
              (a < res_addr ?r \<and> res_addr ?r - a < ucast storeSize)"
  have n: "reservations (invalidateOtherHartLr m h a storeSize) ! i =
           (if i \<noteq> h \<and> ?hit then ?r\<lparr>res_valid := False\<rparr> else ?r)"
    using loop_nth [OF assms, of 0 h a storeSize] by (simp add: invalidateOtherHartLr_def)
  have l: "length (reservations (invalidateOtherHartLr m h a storeSize)) = length (reservations m)"
    by (simp add: invalidateOtherHartLr_def loop_length)
  have "res_valid (reservations (invalidateOtherHartLr m h a storeSize) ! i) =
          (res_valid ?r \<and>
           \<not> intersects (unat (res_addr ?r)) (unat (res_size ?r)) (unat a) (unat storeSize))"
    if "i \<noteq> h" and "storeSize \<noteq> 0" and "res_size ?r \<noteq> 0"
    unfolding n hit_iff_intersects [OF that(2,3)] using that(1) by simp
  moreover have "res_addr (reservations (invalidateOtherHartLr m h a storeSize) ! i) = res_addr ?r"
    "res_size (reservations (invalidateOtherHartLr m h a storeSize) ! i) = res_size ?r"
    "i = h \<longrightarrow> res_valid (reservations (invalidateOtherHartLr m h a storeSize) ! i) = res_valid ?r"
    unfolding n by simp_all
  ultimately show ?thesis using l by blast
qed

theorem invalidateOtherHartLr_overlap_witness:
  "(0 :: nat) < length (reservations reservedMemory) \<and>
   res_valid (reservations reservedMemory ! 0) \<and>
   \<not> res_valid (reservations (invalidateOtherHartLr reservedMemory 1 10 4) ! 0) \<and>
   res_valid (reservations (invalidateOtherHartLr reservedMemory 1 12 4) ! 0) \<and>
   res_valid (reservations (invalidateOtherHartLr reservedMemory 0 10 4) ! 0)"
proof -
  have h: "(0 :: nat) < length (reservations reservedMemory)" by code_simp
  have v: "res_valid (reservations reservedMemory ! 0)"
    "res_size (reservations reservedMemory ! 0) = 4"
    "res_addr (reservations reservedMemory ! 0) = 8" by code_simp+
  have i: "intersects 8 4 10 4" "\<not> intersects 8 4 12 4" by code_simp+
  from invalidateOtherHartLr_overlap [OF h, of 1 10 4]
       invalidateOtherHartLr_overlap [OF h, of 1 12 4]
       invalidateOtherHartLr_overlap [OF h, of 0 10 4] h v i
  show ?thesis by simp
qed

subsection \<open>Instruction fetch\<close>

lemma getAttrib_map_exec_iccm:
  assumes "\<And>p. isExec (f p) = isExec p" and "\<And>p. isIccm (f p) = isIccm p"
  shows "isExec (getAttrib (m\<lparr>attribs := map f (attribs m)\<rparr>) a) = isExec (getAttrib m a)"
    and "isIccm (getAttrib (m\<lparr>attribs := map f (attribs m)\<rparr>) a) = isIccm (getAttrib m a)"
  using assms by (simp_all add: getAttrib_def getPageIx_def Let_def)

lemma getPageStartAddr_attribs [simp]:
  "getPageStartAddr (m\<lparr>attribs := x\<rparr>) a = getPageStartAddr m a"
  by (simp add: getPageStartAddr_def)

text \<open>
  C8. A half-word fetch succeeds exactly when the page of the address is executable,
  the bytes are inside the buffer and, if the address is odd and its two bytes lie on
  two pages, the second page is executable and in the ICCM exactly when the first is. A
  word fetch is the same with the test for an address that is not a multiple of 4 and
  the page of the last of the four bytes. Neither looks at any other flag: setting the
  readable, writable, register and DCCM flags of the pages to anything leaves both
  fetches as they are.
\<close>

theorem instruction_fetch_rules:
  "(readInstHalfWord m a v = Inr (True, x) \<longleftrightarrow>
      isExec (getAttrib m a) \<and>
      (a AND 1 \<noteq> 0 \<and> getPageStartAddr m a \<noteq> getPageStartAddr m (a + 1) \<longrightarrow>
         isExec (getAttrib m (a + 1)) \<and> isIccm (getAttrib m a) = isIccm (getAttrib m (a + 1))) \<and>
      loadT (data m) a = Inr x) \<and>
   (readInstWord m a w = Inr (True, y) \<longleftrightarrow>
      isExec (getAttrib m a) \<and>
      (a AND 3 \<noteq> 0 \<and> getPageStartAddr m a \<noteq> getPageStartAddr m (a + 3) \<longrightarrow>
         isExec (getAttrib m (a + 3)) \<and> isIccm (getAttrib m a) = isIccm (getAttrib m (a + 3))) \<and>
      loadT (data m) a = Inr y) \<and>
   readInstHalfWord
     (m\<lparr>attribs := map (\<lambda>p. p\<lparr>isRead := r p, isWrite := wr p, isMemMappedReg := g p,
                                isDccm := d p\<rparr>) (attribs m)\<rparr>) a v =
     readInstHalfWord m a v \<and>
   readInstWord
     (m\<lparr>attribs := map (\<lambda>p. p\<lparr>isRead := r p, isWrite := wr p, isMemMappedReg := g p,
                                isDccm := d p\<rparr>) (attribs m)\<rparr>) a w =
     readInstWord m a w"
proof (intro conjI)
  show "readInstHalfWord m a v = Inr (True, x) \<longleftrightarrow>
      isExec (getAttrib m a) \<and>
      (a AND 1 \<noteq> 0 \<and> getPageStartAddr m a \<noteq> getPageStartAddr m (a + 1) \<longrightarrow>
         isExec (getAttrib m (a + 1)) \<and> isIccm (getAttrib m a) = isIccm (getAttrib m (a + 1))) \<and>
      loadT (data m) a = Inr x"
    by (auto simp: readInstHalfWord_def Let_def split: sum.splits)
  show "readInstWord m a w = Inr (True, y) \<longleftrightarrow>
      isExec (getAttrib m a) \<and>
      (a AND 3 \<noteq> 0 \<and> getPageStartAddr m a \<noteq> getPageStartAddr m (a + 3) \<longrightarrow>
         isExec (getAttrib m (a + 3)) \<and> isIccm (getAttrib m a) = isIccm (getAttrib m (a + 3))) \<and>
      loadT (data m) a = Inr y"
    by (auto simp: readInstWord_def Let_def split: sum.splits)
  let ?f = "\<lambda>p. p\<lparr>isRead := r p, isWrite := wr p, isMemMappedReg := g p, isDccm := d p\<rparr>"
  have e: "isExec (getAttrib (m\<lparr>attribs := map ?f (attribs m)\<rparr>) b) = isExec (getAttrib m b)"
    and i: "isIccm (getAttrib (m\<lparr>attribs := map ?f (attribs m)\<rparr>) b) = isIccm (getAttrib m b)" for b
    by (rule getAttrib_map_exec_iccm; simp)+
  show "readInstHalfWord (m\<lparr>attribs := map ?f (attribs m)\<rparr>) a v = readInstHalfWord m a v"
    by (simp add: readInstHalfWord_def e i Let_def)
  show "readInstWord (m\<lparr>attribs := map ?f (attribs m)\<rparr>) a w = readInstWord m a w"
    by (simp add: readInstWord_def e i Let_def)
qed

theorem instruction_fetch_rules_witness:
  "readInstHalfWord fetchMemory 127 0 = Inr (True, 0) \<and>
   readInstWord fetchMemory 126 0 = Inr (True, 0) \<and>
   readInstHalfWord fetchMemory 62 0 = Inr (True, 0) \<and>
   readInstHalfWord fetchMemory 63 0 = Inr (False, 0) \<and>
   readInstWord fetchMemory 62 0 = Inr (False, 0) \<and>
   readWord fetchMemory 62 0 = Inr (True, 0)"
proof -
  have h: "isExec (getAttrib fetchMemory 127) \<and>
      ((127 :: addr) AND 1 \<noteq> 0 \<and>
       getPageStartAddr fetchMemory 127 \<noteq> getPageStartAddr fetchMemory (127 + 1) \<longrightarrow>
         isExec (getAttrib fetchMemory (127 + 1)) \<and>
         isIccm (getAttrib fetchMemory 127) = isIccm (getAttrib fetchMemory (127 + 1))) \<and>
      loadT (data fetchMemory) 127 = Inr (0 :: 16 word)"
    by code_simp
  have w: "isExec (getAttrib fetchMemory 126) \<and>
      ((126 :: addr) AND 3 \<noteq> 0 \<and>
       getPageStartAddr fetchMemory 126 \<noteq> getPageStartAddr fetchMemory (126 + 3) \<longrightarrow>
         isExec (getAttrib fetchMemory (126 + 3)) \<and>
         isIccm (getAttrib fetchMemory 126) = isIccm (getAttrib fetchMemory (126 + 3))) \<and>
      loadT (data fetchMemory) 126 = Inr (0 :: 32 word)"
    by code_simp
  have r: "readInstHalfWord fetchMemory 62 0 = Inr (True, 0)"
    "readInstHalfWord fetchMemory 63 0 = Inr (False, 0)"
    "readInstWord fetchMemory 62 0 = Inr (False, 0)"
    "readWord fetchMemory 62 0 = Inr (True, 0)"
    by code_simp+
  from instruction_fetch_rules [of fetchMemory 127 0 0 0 0] h
  have "readInstHalfWord fetchMemory 127 0 = Inr (True, 0)" by blast
  moreover from instruction_fetch_rules [of fetchMemory 126 0 0 0 0] w
  have "readInstWord fetchMemory 126 0 = Inr (True, 0)" by blast
  ultimately show ?thesis using r by simp
qed

end
